theory Spec2Isabelle
  imports Main
begin

section \<open>Text\<close>

text \<open>
  A Python \<^verbatim>\<open>str\<close> is a sequence of Unicode code points, and \<^verbatim>\<open>len\<close> counts code
  points. A text is therefore a list of code points, each a natural number; the literals
  of the source are written as HOL string literals and read through \<open>lit\<close>.
\<close>

type_synonym str = "nat list"

definition lit :: "string \<Rightarrow> str" where
  "lit s = map of_char s"

text \<open>
  \<^verbatim>\<open>str.strip()\<close> removes leading and trailing white space: the code points for which
  \<^verbatim>\<open>str.isspace\<close> holds.
\<close>

definition isspace :: "nat \<Rightarrow> bool" where
  "isspace c =
     ((9 \<le> c \<and> c \<le> 13) \<or> (28 \<le> c \<and> c \<le> 32) \<or> c = 133 \<or> c = 160 \<or> c = 5760 \<or>
      (8192 \<le> c \<and> c \<le> 8202) \<or> c = 8232 \<or> c = 8233 \<or> c = 8239 \<or> c = 8287 \<or>
      c = 12288)"

definition strip :: "str \<Rightarrow> str" where
  "strip s = rev (dropWhile isspace (rev (dropWhile isspace s)))"

text \<open>\<^verbatim>\<open>sep.join(xs)\<close>.\<close>

fun join :: "str \<Rightarrow> str list \<Rightarrow> str" where
  "join sep [] = []"
| "join sep [x] = x"
| "join sep (x # y # ys) = x @ sep @ join sep (y # ys)"

text \<open>\<^verbatim>\<open>str(n)\<close> for a non-negative integer, as an f-string renders it.\<close>

fun decimal :: "nat \<Rightarrow> str" where
  "decimal n = (if n < 10 then [48 + n] else decimal (n div 10) @ [48 + n mod 10])"

declare decimal.simps [simp del]

section \<open>The process and its surroundings\<close>

text \<open>
  Exceptions that end a run: a failure of the remote service (anything
  \<^verbatim>\<open>openai.ChatCompletion.create\<close> raises), the \<^verbatim>\<open>NameError\<close> of reading a name that
  was never bound, and the \<^verbatim>\<open>EOFError\<close> of \<^verbatim>\<open>input\<close> at the end of the input.
\<close>

datatype error = RemoteError | NameError | EOFError

datatype role = System | User | Assistant

record message =
  role :: role
  content :: str

text \<open>
  The keyword arguments of \<^verbatim>\<open>openai.ChatCompletion.create\<close>. The sampling parameters are
  floats the program only passes on; their type is left open.
\<close>

record 'f request =
  rq_model :: str
  rq_messages :: "message list"
  rq_max_tokens :: int
  rq_temperature :: 'f
  rq_top_p :: 'f

text \<open>
  What the program reads and writes: the lines still to be read from the terminal, what
  was printed, the requests sent to the remote service in order, and the files written.
\<close>

record 'f world =
  stdin :: "str list"
  stdout :: "str list"
  sent :: "'f request list"
  files :: "str \<rightharpoonup> str"

text \<open>
  The remote service is a sequence of replies, \<open>svc k\<close> answering the \<open>k\<close>-th request of
  the run (counted from 0): the generated text, or a failure. Every request of a run has
  its own index, so any behaviour of the service, also one that depends on the requests,
  is such a sequence. The tokenizer (\<^verbatim>\<open>tiktoken\<close>'s \<^verbatim>\<open>cl100k_base\<close>, a library outside the
  repository) is a parameter \<open>enc\<close> from a text to its tokens, as it is an argument of
  \<^verbatim>\<open>compute_total_tokens\<close>; it is taken to return for every text.
\<close>

definition create :: "(nat \<Rightarrow> error + str) \<Rightarrow> 'f request \<Rightarrow> 'f world \<Rightarrow> (error + str) \<times> 'f world" where
  "create svc rq w = (svc (length (sent w)), w\<lparr>sent := sent w @ [rq]\<rparr>)"

definition print :: "str \<Rightarrow> 'f world \<Rightarrow> 'f world" where
  "print s w = w\<lparr>stdout := stdout w @ [s @ lit ''\<newline>'']\<rparr>"

definition input :: "str \<Rightarrow> 'f world \<Rightarrow> (error + str) \<times> 'f world" where
  "input prompt w =
     (case stdin w of
        [] \<Rightarrow> (Inl EOFError, w\<lparr>stdout := stdout w @ [prompt]\<rparr>)
      | l # ls \<Rightarrow> (Inr l, w\<lparr>stdin := ls, stdout := stdout w @ [prompt]\<rparr>))"

text \<open>\<^verbatim>\<open>with open(name, "w") as f: f.write(...)\<close>: the file holds what was written.\<close>

definition write_file :: "str \<Rightarrow> str \<Rightarrow> 'f world \<Rightarrow> 'f world" where
  "write_file name text w = w\<lparr>files := (files w)(name \<mapsto> text)\<rparr>"

section \<open>The prompts\<close>

definition brainstorming_prompt :: "str \<Rightarrow> str \<Rightarrow> str" where
  "brainstorming_prompt problem additional =
     lit ''You are a superhuman AI problem solver working with another superhuman AI agent to solve the following problem:\<newline>\<newline>Problem: ''
     @ problem @ additional @
     lit ''\<newline>\<newline>Your task is to critically analyze and critique the solution put forth by your partner agent. You should identify the flaws in your partner's plan and suggest rigorous improvements to their ideas.\<newline>\<newline>Engage in a productive conversation and brainstorm a solution together. Do not agree with everything your partner says; challenge your partner's ideas aggressively and rigorously critique the proposed ideas. Build on your partner's ideas if they are sound and propose new ideas.\<newline>\<newline>Do not reiterate what your partner has said already. Only propose new ideas and critique your partner.\<newline>\<newline>Your ultimate goal is to work together to develop a completely sound and full-proof proposal to solve the problem.''"

definition synthesis_prompt :: "str \<Rightarrow> str \<Rightarrow> str \<Rightarrow> str" where
  "synthesis_prompt problem additional conversation =
     lit ''Problem: '' @ problem @ additional @
     lit ''\<newline>\<newline>The following is a conversation between two superhuman AI agents trying to solve the above problem:\<newline>\<newline>### CONVERSATION START ###\<newline>''
     @ conversation @
     lit ''\<newline>### CONVERSATION END ###\<newline>\<newline>Synthesize the above conversation into an extremely detailed, coherent, complete proposal to solve the problem.''"

section \<open>The completion client\<close>

text \<open>
  \<^verbatim>\<open>query_GPT\<close> sends one user message. Its result is
  \<^verbatim>\<open>['choices'][0]['message']['content']\<close> of the response, the text \<open>svc\<close> gives.
\<close>

definition query_GPT ::
  "(nat \<Rightarrow> error + str) \<Rightarrow> str \<Rightarrow> int \<Rightarrow> str \<Rightarrow> 'f \<Rightarrow> 'f \<Rightarrow> 'f world \<Rightarrow> (error + str) \<times> 'f world" where
  "query_GPT svc prompt max_tokens engine temp top_p w =
     create svc
       \<lparr>rq_model = engine, rq_messages = [\<lparr>role = User, content = prompt\<rparr>],
        rq_max_tokens = max_tokens, rq_temperature = temp, rq_top_p = top_p\<rparr> w"

text \<open>
  The loop of \<^verbatim>\<open>chat_GPT\<close> over \<^verbatim>\<open>enumerate(input_messages)\<close>, from index \<open>i\<close> on: the
  messages it appends.
\<close>

fun chat_messages :: "nat \<Rightarrow> str \<Rightarrow> str list \<Rightarrow> message list" where
  "chat_messages i starter [] = []"
| "chat_messages i starter (m # ms) =
     (if i mod 2 = (if starter = lit ''user'' then 0 else 1)
      then \<lparr>role = User, content = m\<rparr>
      else \<lparr>role = Assistant, content = m\<rparr>) # chat_messages (Suc i) starter ms"

definition chat_GPT ::
  "(nat \<Rightarrow> error + str) \<Rightarrow> str list \<Rightarrow> str \<Rightarrow> str \<Rightarrow> int \<Rightarrow> str \<Rightarrow> 'f \<Rightarrow> 'f \<Rightarrow> 'f world
     \<Rightarrow> (error + str) \<times> 'f world" where
  "chat_GPT svc input_messages system_prompt starter max_tokens engine temp top_p w =
     create svc
       \<lparr>rq_model = engine,
        rq_messages = \<lparr>role = System, content = system_prompt\<rparr> # chat_messages 0 starter input_messages,
        rq_max_tokens = max_tokens, rq_temperature = temp, rq_top_p = top_p\<rparr> w"

section \<open>The token count\<close>

definition compute_total_tokens :: "str list \<Rightarrow> (str \<Rightarrow> nat list) \<Rightarrow> nat" where
  "compute_total_tokens msgs enc = length (enc (join (lit ''\<newline>'') msgs))"

section \<open>The debating loop\<close>

text \<open>The parsed command line.\<close>

record 'f args =
  arg_temp :: 'f
  arg_top_p :: 'f
  arg_engine :: str
  arg_max_len :: int

text \<open>
  The \<^verbatim>\<open>while\<close> loop of the main program. \<open>fuel\<close> bounds the number of times the loop
  condition is evaluated; the result \<open>None\<close> says that the loop was still running when
  the fuel ran out, and comes with the world as it was then. A failed chat call ends the
  loop with the error; otherwise the loop returns the transcript.
\<close>

fun debating_loop ::
  "nat \<Rightarrow> (str \<Rightarrow> nat list) \<Rightarrow> (nat \<Rightarrow> error + str) \<Rightarrow> 'f args \<Rightarrow> str \<Rightarrow> str list \<Rightarrow> 'f world
     \<Rightarrow> (error + str list) option \<times> 'f world" where
  "debating_loop 0 enc svc args active_prompt msgs w = (None, w)"
| "debating_loop (Suc fuel) enc svc args active_prompt msgs w =
     (if int (compute_total_tokens msgs enc) < arg_max_len args then
        let max_tokens = arg_max_len args - int (compute_total_tokens msgs enc) in
        case chat_GPT svc msgs active_prompt (lit ''user'') max_tokens
               (arg_engine args) (arg_temp args) (arg_top_p args) w of
          (Inl e, w1) \<Rightarrow> (Some (Inl e), w1)
        | (Inr r1, w1) \<Rightarrow>
            let agent1_response = strip r1;
                msgs1 = msgs @ [agent1_response];
                w2 = print (lit ''Agent 1: '' @ agent1_response
                              @ lit ''\<newline>-----------------------------\<newline>'') w1
            in
            case chat_GPT svc msgs1 active_prompt (lit ''assistant'') max_tokens
                   (arg_engine args) (arg_temp args) (arg_top_p args) w2 of
              (Inl e, w3) \<Rightarrow> (Some (Inl e), w3)
            | (Inr r2, w3) \<Rightarrow>
                let agent2_response = strip r2;
                    msgs2 = msgs1 @ [agent2_response];
                    w4 = print (lit ''Agent 2: '' @ agent2_response
                                  @ lit ''\<newline>-----------------------------\<newline>'') w3
                in
                if length agent2_response < 50 then (Some (Inr msgs2), w4)
                else debating_loop fuel enc svc args active_prompt msgs2 w4
      else (Some (Inr msgs), w))"

declare debating_loop.simps(2) [simp del]

section \<open>The main program\<close>

text \<open>
  The context ceiling of the engine. The source binds \<^verbatim>\<open>context_len\<close> in an
  \<^verbatim>\<open>if\<close>/\<^verbatim>\<open>elif\<close> without \<^verbatim>\<open>else\<close>: for any other engine the name stays unbound
  (\<open>None\<close>), and reading it raises \<^verbatim>\<open>NameError\<close>.
\<close>

definition context_len :: "str \<Rightarrow> int option" where
  "context_len engine =
     (if engine = lit ''gpt-3.5-turbo'' then Some 4000
      else if engine = lit ''gpt-4'' then Some 8000
      else None)"

text \<open>The prompt that asks for an initial proposal.\<close>

definition seed_prompt :: "str \<Rightarrow> str \<Rightarrow> str" where
  "seed_prompt problem additional =
     (if additional = [] then
        lit ''Given the following problem, propose a solution.\<newline>\<newline>Problem: '' @ problem
        @ lit ''\<newline>\<newline>Proposed solution:''
      else
        lit ''Given the following problem and additional information, propose a solution.\<newline>\<newline>Problem: ''
        @ problem @ lit ''\<newline>\<newline>Additional Information: '' @ additional
        @ lit ''\<newline>\<newline>Proposed solution:'')"

text \<open>If no seed was entered, one is generated (with the default \<^verbatim>\<open>max_tokens=512\<close>).\<close>

definition seeding ::
  "(nat \<Rightarrow> error + str) \<Rightarrow> 'f args \<Rightarrow> str \<Rightarrow> str \<Rightarrow> str \<Rightarrow> 'f world \<Rightarrow> (error + str) \<times> 'f world" where
  "seeding svc args problem additional seed w =
     (if seed = [] then
        let w1 = print (lit ''-----------------------------\<newline>Generating initial proposal...\<newline>-----------------------------'') w
        in
        case query_GPT svc (seed_prompt problem additional) 512
               (arg_engine args) (arg_temp args) (arg_top_p args) w1 of
          (Inl e, w2) \<Rightarrow> (Inl e, w2)
        | (Inr r, w2) \<Rightarrow>
            (Inr (strip r),
             print (lit ''\<newline>-----------------------------\<newline>Initial proposal: '' @ strip r
                      @ lit ''\<newline>-----------------------------\<newline>'') w2)
      else (Inr seed, w))"

text \<open>
  The value passed for \<^verbatim>\<open>additional\<close> when a prompt template is formatted.
\<close>

definition additional_clause :: "str \<Rightarrow> str" where
  "additional_clause additional =
     (if additional \<noteq> [] then lit ''\<newline>Additional Information: '' @ additional else [])"

text \<open>
  The text the two loops over \<^verbatim>\<open>enumerate(messages)\<close> build, from index \<open>i\<close> on: one
  entry \<^verbatim>\<open>f"Agent {i % 2 + 1}: {message}\n\n"\<close> per message.
\<close>

fun agent_entries :: "nat \<Rightarrow> str list \<Rightarrow> str" where
  "agent_entries i [] = []"
| "agent_entries i (m # ms) =
     lit ''Agent '' @ decimal (i mod 2 + 1) @ lit '': '' @ m @ lit ''\<newline>\<newline>''
     @ agent_entries (Suc i) ms"

definition conversation_string :: "str list \<Rightarrow> str" where
  "conversation_string msgs = strip (agent_entries 0 msgs)"

text \<open>The head shared by \<^verbatim>\<open>conversation.txt\<close> and \<^verbatim>\<open>synthesis.txt\<close>.\<close>

definition file_header :: "str \<Rightarrow> str \<Rightarrow> str \<Rightarrow> str" where
  "file_header problem additional seed =
     lit ''Problem: '' @ problem @ lit ''\<newline>\<newline>Additional Information: '' @ additional
     @ lit ''\<newline>\<newline>Proposed Solution: '' @ seed @ lit ''\<newline>\<newline>''"

definition conversation_file :: "str \<Rightarrow> str \<Rightarrow> str \<Rightarrow> str list \<Rightarrow> str" where
  "conversation_file problem additional seed msgs =
     file_header problem additional seed @ agent_entries 0 msgs"

definition synthesis_file :: "str \<Rightarrow> str \<Rightarrow> str \<Rightarrow> str \<Rightarrow> str" where
  "synthesis_file problem additional seed synthesis =
     file_header problem additional seed @ lit ''Synthesis: '' @ synthesis @ lit ''\<newline>\<newline>''"

definition report_prompt :: "str \<Rightarrow> str" where
  "report_prompt synthesis =
     lit ''###START REPORT\<newline>'' @ synthesis
     @ lit ''\<newline>###END REPORT\<newline>\<newline>Reformat the above write-up via HTML into a professional-looking report. Use Times New Roman\<newline><!DOCTYPE html>''"

text \<open>
  The program after the loop: the synthesis call, the two text files, the report call
  and the report file, in the order of the source. \<^verbatim>\<open>context_len\<close> is first read when
  the arguments of the synthesis call are evaluated.
\<close>

definition wrap_up ::
  "(str \<Rightarrow> nat list) \<Rightarrow> (nat \<Rightarrow> error + str) \<Rightarrow> 'f args \<Rightarrow> str \<Rightarrow> str \<Rightarrow> str \<Rightarrow> str list \<Rightarrow> 'f world
     \<Rightarrow> (error + unit) \<times> 'f world" where
  "wrap_up enc svc args problem additional seed msgs w =
     (let w1 = print (lit ''-----------------------------\<newline>Synthesizing information...\<newline>-----------------------------'') w;
          active_prompt =
            synthesis_prompt problem (additional_clause additional) (conversation_string msgs)
      in
      case context_len (arg_engine args) of
        None \<Rightarrow> (Inl NameError, w1)
      | Some c \<Rightarrow>
          (case query_GPT svc active_prompt (c - int (length (enc active_prompt)))
                  (arg_engine args) (arg_temp args) (arg_top_p args) w1 of
             (Inl e, w2) \<Rightarrow> (Inl e, w2)
           | (Inr r, w2) \<Rightarrow>
               let synthesis = strip r;
                   w3 = print (lit ''\<newline>-----------------------------\<newline>Synthesis: '' @ synthesis
                                 @ lit ''\<newline>-----------------------------\<newline>'') w2;
                   w4 = write_file (lit ''conversation.txt'')
                          (conversation_file problem additional seed msgs) w3;
                   w5 = write_file (lit ''synthesis.txt'')
                          (synthesis_file problem additional seed synthesis) w4
               in
               (case query_GPT svc (report_prompt synthesis) (c - int (length (enc synthesis)))
                       (arg_engine args) (arg_temp args) (arg_top_p args) w5 of
                  (Inl e, w6) \<Rightarrow> (Inl e, w6)
                | (Inr html, w6) \<Rightarrow> (Inr (), write_file (lit ''report.html'') html w6))))"

text \<open>
  The program from the start of the brainstorming session on: the transcript starts as
  the seed alone, the loop runs, and the transcript goes to the synthesis. The result is
  \<open>None\<close> when the loop was still running at the end of the fuel, the exception that
  ended the run, or \<open>Inr ()\<close> for a run that reached the end of the program.
\<close>

definition brainstorm ::
  "nat \<Rightarrow> (str \<Rightarrow> nat list) \<Rightarrow> (nat \<Rightarrow> error + str) \<Rightarrow> 'f args \<Rightarrow> str \<Rightarrow> str \<Rightarrow> str \<Rightarrow> 'f world
     \<Rightarrow> (error + unit) option \<times> 'f world" where
  "brainstorm fuel enc svc args problem additional seed w =
     (let w1 = print (lit ''Starting brainstorming session...\<newline>-----------------------------'') w;
          active_prompt = brainstorming_prompt problem (additional_clause additional)
      in
      case debating_loop fuel enc svc args active_prompt [seed] w1 of
        (None, w2) \<Rightarrow> (None, w2)
      | (Some (Inl e), w2) \<Rightarrow> (Some (Inl e), w2)
      | (Some (Inr msgs), w2) \<Rightarrow>
          (case wrap_up enc svc args problem additional seed msgs w2 of
             (r, w3) \<Rightarrow> (Some r, w3)))"

text \<open>
  The whole run, from the banner on. The three answers are read from the terminal, and
  a seed is generated if none was entered.
\<close>

definition main ::
  "nat \<Rightarrow> (str \<Rightarrow> nat list) \<Rightarrow> (nat \<Rightarrow> error + str) \<Rightarrow> 'f args \<Rightarrow> 'f world
     \<Rightarrow> (error + unit) option \<times> 'f world" where
  "main fuel enc svc args w =
     (let w0 = print (lit ''Welcome to BrainstormGPT '' @ [129504, 9928, 65039]
                        @ lit ''\<newline>-----------------------------'') w
      in
      case input (lit ''Describe the problem you want to solve: '') w0 of
        (Inl e, w1) \<Rightarrow> (Some (Inl e), w1)
      | (Inr problem, w1) \<Rightarrow>
      (case input (lit ''Describe any additional information you want to provide (leave blank if none): '') w1 of
        (Inl e, w2) \<Rightarrow> (Some (Inl e), w2)
      | (Inr additional, w2) \<Rightarrow>
      (case input (lit ''Enter any initial proposals you have (leave blank if none): '') w2 of
        (Inl e, w3) \<Rightarrow> (Some (Inl e), w3)
      | (Inr seed0, w3) \<Rightarrow>
      (case seeding svc args problem additional seed0 w3 of
        (Inl e, w4) \<Rightarrow> (Some (Inl e), w4)
      | (Inr seed, w4) \<Rightarrow> brainstorm fuel enc svc args problem additional seed w4))))"

section \<open>The alternation of roles, as specified\<close>

text \<open>The alternation as the specification words it: the starter's role at even
  positions, the other role at odd ones.\<close>

definition opposite :: "role \<Rightarrow> role" where
  "opposite r = (if r = User then Assistant else User)"

definition alternating :: "role \<Rightarrow> str list \<Rightarrow> message list" where
  "alternating s h =
     map (\<lambda>i. \<lparr>role = (if even i then s else opposite s), content = h ! i\<rparr>) [0..<length h]"

section \<open>Reading the conversation file back\<close>

text \<open>
  Modelled from the spec: the repository writes the conversation file and has no reader
  for it. The round trip of the specification, re-parsing the \<^verbatim>\<open>Agent N:\<close> labeled
  entries, is read as follows. The file is split into its lines. A line that starts with
  \<^verbatim>\<open>Agent 1: \<close> or \<^verbatim>\<open>Agent 2: \<close> opens an entry; the entry is what follows the label on
  that line together with the lines up to the next labelled line or the end of the file,
  without the blank line that closes it. Lines before the first labelled line (the
  header) belong to no entry.
\<close>

text \<open>The lines of a text, split at each line break; a text without one is one line.\<close>

fun split_lines :: "str \<Rightarrow> str list" where
  "split_lines [] = [[]]"
| "split_lines (c # cs) =
     (if c = 10 then [] # split_lines cs
      else case split_lines cs of
             [] \<Rightarrow> [[c]]
           | l # ls \<Rightarrow> (c # l) # ls)"

definition is_label :: "str \<Rightarrow> bool" where
  "is_label l = (take 9 l = lit ''Agent 1: '' \<or> take 9 l = lit ''Agent 2: '')"

text \<open>The entries of a list of lines, each as its lines, the closing blank line included.\<close>

fun entries_of_lines :: "str list \<Rightarrow> str list list" where
  "entries_of_lines [] = []"
| "entries_of_lines (l # ls) =
     (if is_label l
      then (drop 9 l # takeWhile (\<lambda>x. \<not> is_label x) ls) # entries_of_lines ls
      else entries_of_lines ls)"

text \<open>
  The file ends with a line break, so the last of its lines is empty and is left out, as
  \<^verbatim>\<open>splitlines\<close> does.
\<close>

definition parse_conversation :: "str \<Rightarrow> str list" where
  "parse_conversation file =
     map (\<lambda>g. join (lit ''\<newline>'') (butlast g)) (entries_of_lines (butlast (split_lines file)))"

text \<open>
  A text is free of inner labels when none of its lines after the first starts with
  \<^verbatim>\<open>Agent 1: \<close> or \<^verbatim>\<open>Agent 2: \<close>.
\<close>

definition no_inner_label :: "str \<Rightarrow> bool" where
  "no_inner_label m = list_all (\<lambda>l. \<not> is_label l) (tl (split_lines m))"

text \<open>
  For the proof of the round trip: the label of the entry at position \<open>i\<close>, and the lines
  the entries from position \<open>i\<close> on take in the file.
\<close>

definition label :: "nat \<Rightarrow> str" where
  "label i = lit ''Agent '' @ decimal (i mod 2 + 1) @ lit '': ''"

fun entry_lines :: "nat \<Rightarrow> str list \<Rightarrow> str list" where
  "entry_lines i [] = []"
| "entry_lines i (m # ms) =
     (label i @ hd (split_lines m)) # tl (split_lines m) @ [] # entry_lines (Suc i) ms"

section \<open>Chat requests alternate the roles\<close>

lemma chat_messages_nth:
  "i < length h \<Longrightarrow> chat_messages k starter h ! i =
     \<lparr>role = (if (k + i) mod 2 = (if starter = lit ''user'' then 0 else 1) then User else Assistant),
      content = h ! i\<rparr>"
proof (induction h arbitrary: k i)
  case Nil
  then show ?case by simp
next
  case (Cons m ms)
  show ?case
  proof (cases i)
    case 0
    then show ?thesis by simp
  next
    case (Suc j)
    with Cons.prems have "j < length ms" by simp
    from Cons.IH [OF this, of "Suc k"] Suc show ?thesis by simp
  qed
qed

lemma length_chat_messages: "length (chat_messages k starter h) = length h"
  by (induction h arbitrary: k) simp_all

lemma lit_inject: "lit a = lit b \<longleftrightarrow> a = b"
  by (simp add: lit_def inj_map_eq_map [OF inj_of_char])

lemma chat_messages_user: "chat_messages 0 (lit ''user'') h = alternating User h"
  by (rule nth_equalityI)
     (auto simp: length_chat_messages alternating_def chat_messages_nth opposite_def
        even_iff_mod_2_eq_zero)

lemma chat_messages_assistant: "chat_messages 0 (lit ''assistant'') h = alternating Assistant h"
  by (rule nth_equalityI)
     (auto simp: length_chat_messages alternating_def chat_messages_nth opposite_def
        lit_inject even_iff_mod_2_eq_zero)

text \<open>
  Claim C3. For every history \<open>h\<close> and both starter roles, \<^verbatim>\<open>chat_GPT\<close> sends one request
  whose messages are a system message holding the given system prompt, followed by one
  message per element of \<open>h\<close> in order, tagged with the starter's role at even positions
  and the other role at odd ones; it returns the text the service generated for that
  request.
\<close>

theorem C3_chat_roles_alternate:
  "chat_GPT svc h system_prompt (lit ''user'') max_tokens engine temp top_p w =
     (svc (length (sent w)),
      w\<lparr>sent := sent w @
         [\<lparr>rq_model = engine,
           rq_messages = \<lparr>role = System, content = system_prompt\<rparr> # alternating User h,
           rq_max_tokens = max_tokens, rq_temperature = temp, rq_top_p = top_p\<rparr>]\<rparr>)
   \<and> chat_GPT svc h system_prompt (lit ''assistant'') max_tokens engine temp top_p w =
     (svc (length (sent w)),
      w\<lparr>sent := sent w @
         [\<lparr>rq_model = engine,
           rq_messages = \<lparr>role = System, content = system_prompt\<rparr> # alternating Assistant h,
           rq_max_tokens = max_tokens, rq_temperature = temp, rq_top_p = top_p\<rparr>]\<rparr>)"
  by (simp add: chat_GPT_def create_def chat_messages_user chat_messages_assistant)

section \<open>One iteration of the debating loop\<close>

lemma debating_loop_sent:
  "\<exists>rest. sent (snd (debating_loop fuel enc svc args p msgs w)) = sent w @ rest"
proof (induction fuel arbitrary: msgs w)
  case 0
  then show ?case by simp
next
  case (Suc fuel)
  have "\<exists>rest. sent (snd (debating_loop fuel enc svc args p m v)) = sent w @ rest"
    if "\<exists>r. sent v = sent w @ r" for m v
    using Suc.IH [of m v] that by auto
  then show ?case
    by (auto simp: debating_loop.simps(2) chat_GPT_def create_def print_def Let_def
          split: sum.splits)
qed

lemma debating_loop_first_request:
  assumes "int (compute_total_tokens msgs enc) < arg_max_len args"
  shows "\<exists>rest. sent (snd (debating_loop (Suc fuel) enc svc args p msgs w)) = sent w @
           \<lparr>rq_model = arg_engine args,
            rq_messages = \<lparr>role = System, content = p\<rparr> # chat_messages 0 (lit ''user'') msgs,
            rq_max_tokens = arg_max_len args - int (compute_total_tokens msgs enc),
            rq_temperature = arg_temp args, rq_top_p = arg_top_p args\<rparr> # rest"
proof -
  let ?rq = "\<lparr>rq_model = arg_engine args,
            rq_messages = \<lparr>role = System, content = p\<rparr> # chat_messages 0 (lit ''user'') msgs,
            rq_max_tokens = arg_max_len args - int (compute_total_tokens msgs enc),
            rq_temperature = arg_temp args, rq_top_p = arg_top_p args\<rparr>"
  have "\<exists>rest. sent (snd (debating_loop fuel enc svc args p m v)) = sent w @ ?rq # rest"
    if "\<exists>r. sent v = sent w @ ?rq # r" for m v
    using debating_loop_sent [of fuel enc svc args p m v] that by auto
  with assms show ?thesis
    by (auto simp: debating_loop.simps(2) chat_GPT_def create_def print_def Let_def
          split: sum.splits)
qed

lemma debating_loop_two_requests:
  assumes "int (compute_total_tokens msgs enc) < arg_max_len args"
    and "svc (length (sent w)) = Inr ra"
  shows "\<exists>rest. sent (snd (debating_loop (Suc fuel) enc svc args p msgs w)) = sent w @
           [\<lparr>rq_model = arg_engine args,
             rq_messages = \<lparr>role = System, content = p\<rparr> # chat_messages 0 (lit ''user'') msgs,
             rq_max_tokens = arg_max_len args - int (compute_total_tokens msgs enc),
             rq_temperature = arg_temp args, rq_top_p = arg_top_p args\<rparr>,
            \<lparr>rq_model = arg_engine args,
             rq_messages = \<lparr>role = System, content = p\<rparr>
                # chat_messages 0 (lit ''assistant'') (msgs @ [strip ra]),
             rq_max_tokens = arg_max_len args - int (compute_total_tokens msgs enc),
             rq_temperature = arg_temp args, rq_top_p = arg_top_p args\<rparr>] @ rest"
proof -
  let ?rq1 = "\<lparr>rq_model = arg_engine args,
             rq_messages = \<lparr>role = System, content = p\<rparr> # chat_messages 0 (lit ''user'') msgs,
             rq_max_tokens = arg_max_len args - int (compute_total_tokens msgs enc),
             rq_temperature = arg_temp args, rq_top_p = arg_top_p args\<rparr>"
  let ?rq2 = "\<lparr>rq_model = arg_engine args,
             rq_messages = \<lparr>role = System, content = p\<rparr>
                # chat_messages 0 (lit ''assistant'') (msgs @ [strip ra]),
             rq_max_tokens = arg_max_len args - int (compute_total_tokens msgs enc),
             rq_temperature = arg_temp args, rq_top_p = arg_top_p args\<rparr>"
  have "\<exists>rest. sent (snd (debating_loop fuel enc svc args p m v)) = sent w @ ?rq1 # ?rq2 # rest"
    if "\<exists>r. sent v = sent w @ ?rq1 # ?rq2 # r" for m v
    using debating_loop_sent [of fuel enc svc args p m v] that by auto
  with assms show ?thesis
    by (auto simp: debating_loop.simps(2) chat_GPT_def create_def print_def Let_def
          split: sum.splits)
qed

text \<open>
  Claim C1. Take any iteration of the debating loop: the budget condition holds at the
  transcript \<open>msgs\<close> and the two chat calls return \<open>ra\<close> and \<open>rb\<close>. If the stripped
  Agent-2 reply has fewer than 50 characters, the loop returns the transcript extended
  by the two turns, having sent exactly these two requests. Otherwise the loop goes on
  from its head with the extended transcript: when the budget condition holds there, a
  third request, the next Agent-1 call, is sent; when it does not, the loop returns the
  extended transcript without another request.
\<close>

theorem C1_short_reply_stops:
  assumes "int (compute_total_tokens msgs enc) < arg_max_len args"
    and "svc (length (sent w)) = Inr ra"
    and "svc (Suc (length (sent w))) = Inr rb"
  shows "(length (strip rb) < 50 \<longrightarrow>
            (\<exists>w'. debating_loop (Suc fuel) enc svc args p msgs w
                    = (Some (Inr (msgs @ [strip ra, strip rb])), w')
                  \<and> length (sent w') = length (sent w) + 2))
       \<and> (50 \<le> length (strip rb) \<longrightarrow>
            (\<exists>w'. debating_loop (Suc fuel) enc svc args p msgs w
                    = debating_loop fuel enc svc args p (msgs @ [strip ra, strip rb]) w'
                  \<and> length (sent w') = length (sent w) + 2))
       \<and> (50 \<le> length (strip rb)
            \<and> int (compute_total_tokens (msgs @ [strip ra, strip rb]) enc) < arg_max_len args \<longrightarrow>
            length (sent w) + 3 \<le> length (sent (snd (debating_loop (Suc (Suc fuel)) enc svc args p msgs w)))
            \<and> rq_messages (sent (snd (debating_loop (Suc (Suc fuel)) enc svc args p msgs w))
                            ! (length (sent w) + 2))
                = \<lparr>role = System, content = p\<rparr>
                    # chat_messages 0 (lit ''user'') (msgs @ [strip ra, strip rb]))
       \<and> (50 \<le> length (strip rb)
            \<and> \<not> int (compute_total_tokens (msgs @ [strip ra, strip rb]) enc) < arg_max_len args \<longrightarrow>
            (\<exists>w'. debating_loop (Suc (Suc fuel)) enc svc args p msgs w
                    = (Some (Inr (msgs @ [strip ra, strip rb])), w')
                  \<and> length (sent w') = length (sent w) + 2))"
proof -
  let ?mt = "arg_max_len args - int (compute_total_tokens msgs enc)"
  let ?rq1 = "\<lparr>rq_model = arg_engine args,
             rq_messages = \<lparr>role = System, content = p\<rparr> # chat_messages 0 (lit ''user'') msgs,
             rq_max_tokens = ?mt, rq_temperature = arg_temp args, rq_top_p = arg_top_p args\<rparr>"
  let ?rq2 = "\<lparr>rq_model = arg_engine args,
             rq_messages = \<lparr>role = System, content = p\<rparr>
                # chat_messages 0 (lit ''assistant'') (msgs @ [strip ra]),
             rq_max_tokens = ?mt, rq_temperature = arg_temp args, rq_top_p = arg_top_p args\<rparr>"
  let ?msgs2 = "msgs @ [strip ra, strip rb]"
  let ?w4 = "w\<lparr>sent := sent w @ [?rq1, ?rq2],
               stdout := stdout w
                 @ [(lit ''Agent 1: '' @ strip ra @ lit ''\<newline>-----------------------------\<newline>'') @ lit ''\<newline>'',
                    (lit ''Agent 2: '' @ strip rb @ lit ''\<newline>-----------------------------\<newline>'') @ lit ''\<newline>'']\<rparr>"
  have step: "debating_loop (Suc n) enc svc args p msgs w =
      (if length (strip rb) < 50 then (Some (Inr ?msgs2), ?w4)
       else debating_loop n enc svc args p ?msgs2 ?w4)" for n
    using assms
    by (simp add: debating_loop.simps(2) Let_def chat_GPT_def create_def print_def)
  have len: "length (sent ?w4) = length (sent w) + 2" by simp
  have short: "\<exists>w'. debating_loop (Suc fuel) enc svc args p msgs w = (Some (Inr ?msgs2), w')
        \<and> length (sent w') = length (sent w) + 2" if "length (strip rb) < 50"
    using that step [of fuel] len by auto
  have long: "\<exists>w'. debating_loop (Suc fuel) enc svc args p msgs w
                    = debating_loop fuel enc svc args p ?msgs2 w'
                  \<and> length (sent w') = length (sent w) + 2" if "50 \<le> length (strip rb)"
    using that step [of fuel] len by auto
  have cont: "length (sent w) + 3 \<le> length (sent (snd (debating_loop (Suc (Suc fuel)) enc svc args p msgs w)))
            \<and> rq_messages (sent (snd (debating_loop (Suc (Suc fuel)) enc svc args p msgs w))
                            ! (length (sent w) + 2))
                = \<lparr>role = System, content = p\<rparr> # chat_messages 0 (lit ''user'') ?msgs2"
    if "50 \<le> length (strip rb)" "int (compute_total_tokens ?msgs2 enc) < arg_max_len args"
  proof -
    from that(1) step [of "Suc fuel"]
    have eq: "debating_loop (Suc (Suc fuel)) enc svc args p msgs w
            = debating_loop (Suc fuel) enc svc args p ?msgs2 ?w4" by simp
    from debating_loop_first_request [OF that(2), of fuel svc p ?w4]
    obtain rest where "sent (snd (debating_loop (Suc fuel) enc svc args p ?msgs2 ?w4)) = sent ?w4 @
           \<lparr>rq_model = arg_engine args,
            rq_messages = \<lparr>role = System, content = p\<rparr> # chat_messages 0 (lit ''user'') ?msgs2,
            rq_max_tokens = arg_max_len args - int (compute_total_tokens ?msgs2 enc),
            rq_temperature = arg_temp args, rq_top_p = arg_top_p args\<rparr> # rest"
      by blast
    with eq show ?thesis by (simp add: nth_append)
  qed
  have stop: "\<exists>w'. debating_loop (Suc (Suc fuel)) enc svc args p msgs w = (Some (Inr ?msgs2), w')
        \<and> length (sent w') = length (sent w) + 2"
    if "50 \<le> length (strip rb)" "\<not> int (compute_total_tokens ?msgs2 enc) < arg_max_len args"
  proof -
    from that(1) step [of "Suc fuel"]
    have "debating_loop (Suc (Suc fuel)) enc svc args p msgs w
            = debating_loop (Suc fuel) enc svc args p ?msgs2 ?w4" by simp
    also from that(2) have "\<dots> = (Some (Inr ?msgs2), ?w4)"
      by (simp add: debating_loop.simps(2))
    finally show ?thesis using len by blast
  qed
  from short long cont stop show ?thesis by blast
qed

theorem C1_short_reply_stops_witness:
  "(\<exists>w'. debating_loop 1 (\<lambda>s. s) (\<lambda>k. Inr [111, 107])
           \<lparr>arg_temp = (), arg_top_p = (), arg_engine = [], arg_max_len = 2\<rparr> [] [[115]]
           \<lparr>stdin = [], stdout = [], sent = ([] :: unit request list), files = Map.empty\<rparr>
         = (Some (Inr [[115], [111, 107], [111, 107]]), w') \<and> length (sent w') = 2)
   \<and> (\<exists>w'. debating_loop 2 (\<lambda>s. s) (\<lambda>k. Inr (replicate 50 97))
           \<lparr>arg_temp = (), arg_top_p = (), arg_engine = [], arg_max_len = 2\<rparr> [] [[115]]
           \<lparr>stdin = [], stdout = [], sent = ([] :: unit request list), files = Map.empty\<rparr>
         = (Some (Inr [[115], replicate 50 97, replicate 50 97]), w') \<and> length (sent w') = 2)
   \<and> 3 \<le> length (sent (snd (debating_loop 2 (\<lambda>s. s) (\<lambda>k. Inr (replicate 50 97))
           \<lparr>arg_temp = (), arg_top_p = (), arg_engine = [], arg_max_len = 200\<rparr> [] [[115]]
           \<lparr>stdin = [], stdout = [], sent = ([] :: unit request list), files = Map.empty\<rparr>)))"
proof -
  have sp: "strip [111, 107] = [111, 107]" "strip (replicate 50 97) = replicate 50 97"
    by (simp_all add: strip_def isspace_def)
  show ?thesis
  using C1_short_reply_stops [where msgs = "[[115]]" and enc = "\<lambda>s. s"
      and args = "\<lparr>arg_temp = (), arg_top_p = (), arg_engine = [], arg_max_len = 2\<rparr>"
      and svc = "\<lambda>k. Inr [111, 107]" and ra = "[111, 107]" and rb = "[111, 107]" and fuel = 0 and p = "[]"
      and w = "\<lparr>stdin = [], stdout = [], sent = ([] :: unit request list), files = Map.empty\<rparr>"]
    C1_short_reply_stops [where msgs = "[[115]]" and enc = "\<lambda>s. s"
      and args = "\<lparr>arg_temp = (), arg_top_p = (), arg_engine = [], arg_max_len = 2\<rparr>"
      and svc = "\<lambda>k. Inr (replicate 50 97)" and ra = "replicate 50 97" and rb = "replicate 50 97" and fuel = 0 and p = "[]"
      and w = "\<lparr>stdin = [], stdout = [], sent = ([] :: unit request list), files = Map.empty\<rparr>"]
    C1_short_reply_stops [where msgs = "[[115]]" and enc = "\<lambda>s. s"
      and args = "\<lparr>arg_temp = (), arg_top_p = (), arg_engine = [], arg_max_len = 200\<rparr>"
      and svc = "\<lambda>k. Inr (replicate 50 97)" and ra = "replicate 50 97" and rb = "replicate 50 97" and fuel = 0 and p = "[]"
      and w = "\<lparr>stdin = [], stdout = [], sent = ([] :: unit request list), files = Map.empty\<rparr>"]
  by (simp add: compute_total_tokens_def sp lit_def numeral_2_eq_2)
qed

text \<open>
  Claim C2. In an iteration of the debating loop (the budget condition holds at the
  transcript \<open>msgs\<close>, the Agent-1 call returns \<open>ra\<close>), the two requests sent are the
  Agent-1 call on \<open>msgs\<close> and the Agent-2 call on \<open>msgs\<close> extended by the Agent-1 turn,
  and both carry the same \<^verbatim>\<open>max_tokens\<close>: the budget minus the token count of \<open>msgs\<close>,
  the transcript before the Agent-1 turn.
\<close>

theorem C2_shared_budget_snapshot:
  assumes "int (compute_total_tokens msgs enc) < arg_max_len args"
    and "svc (length (sent w)) = Inr ra"
  shows "\<exists>rq1 rq2 rest.
           sent (snd (debating_loop (Suc fuel) enc svc args p msgs w)) = sent w @ [rq1, rq2] @ rest
         \<and> rq_messages rq1 = \<lparr>role = System, content = p\<rparr> # chat_messages 0 (lit ''user'') msgs
         \<and> rq_messages rq2 = \<lparr>role = System, content = p\<rparr>
                                 # chat_messages 0 (lit ''assistant'') (msgs @ [strip ra])
         \<and> rq_max_tokens rq1 = arg_max_len args - int (compute_total_tokens msgs enc)
         \<and> rq_max_tokens rq2 = arg_max_len args - int (compute_total_tokens msgs enc)"
proof -
  from debating_loop_two_requests [where svc = svc and w = w and fuel = fuel and p = p, OF assms]
  obtain rest where
    "sent (snd (debating_loop (Suc fuel) enc svc args p msgs w)) = sent w @
           [\<lparr>rq_model = arg_engine args,
             rq_messages = \<lparr>role = System, content = p\<rparr> # chat_messages 0 (lit ''user'') msgs,
             rq_max_tokens = arg_max_len args - int (compute_total_tokens msgs enc),
             rq_temperature = arg_temp args, rq_top_p = arg_top_p args\<rparr>,
            \<lparr>rq_model = arg_engine args,
             rq_messages = \<lparr>role = System, content = p\<rparr>
                # chat_messages 0 (lit ''assistant'') (msgs @ [strip ra]),
             rq_max_tokens = arg_max_len args - int (compute_total_tokens msgs enc),
             rq_temperature = arg_temp args, rq_top_p = arg_top_p args\<rparr>] @ rest"
    by blast
  then show ?thesis
    by (intro exI conjI) (assumption, simp_all)
qed

theorem C2_shared_budget_snapshot_witness:
  "\<exists>rq1 rq2 rest.
     sent (snd (debating_loop (Suc 0) (\<lambda>s. s) (\<lambda>k. Inr (replicate 60 97))
           \<lparr>arg_temp = (), arg_top_p = (), arg_engine = [], arg_max_len = 5\<rparr> [] [[115]]
           \<lparr>stdin = [], stdout = [], sent = ([] :: unit request list), files = Map.empty\<rparr>))
       = [rq1, rq2] @ rest
     \<and> rq_max_tokens rq1 = 4 \<and> rq_max_tokens rq2 = 4"
  using C2_shared_budget_snapshot [where msgs = "[[115]]" and enc = "\<lambda>s. s"
      and args = "\<lparr>arg_temp = (), arg_top_p = (), arg_engine = [], arg_max_len = 5\<rparr>"
      and svc = "\<lambda>k. Inr (replicate 60 97)" and ra = "replicate 60 97" and fuel = 0 and p = "[]"
      and w = "\<lparr>stdin = [], stdout = [], sent = ([] :: unit request list), files = Map.empty\<rparr>"]
  by (simp add: compute_total_tokens_def) blast

section \<open>The zero-turn run and the sizes of the last two requests\<close>

lemma length_lit: "length (lit s) = length s" by (simp add: lit_def)
lemma lit_eq_Nil: "lit s = [] \<longleftrightarrow> s = []" by (simp add: lit_def)
lemma lit_Nil: "lit [] = []" by (simp add: lit_def)

lemma decimal_1: "decimal (Suc 0) = lit ''1''" by (simp add: decimal.simps lit_def)
lemma decimal_2: "decimal 2 = lit ''2''" by (simp add: decimal.simps lit_def)

text \<open>
  Claim C8. For an engine with a context ceiling \<open>c\<close> and a synthesis call that returns
  \<open>r\<close>, the program after the loop sends exactly two requests: the synthesis request,
  with \<^verbatim>\<open>max_tokens\<close> equal to \<open>c\<close> minus the token count of the whole synthesis
  instruction, and the report request, with \<^verbatim>\<open>max_tokens\<close> equal to \<open>c\<close> minus the token
  count of the stripped synthesis text alone (not of the report prompt around it).
\<close>

theorem C8_request_sizes:
  assumes "context_len (arg_engine args) = Some c"
    and "svc (length (sent w)) = Inr r"
  shows "sent (snd (wrap_up enc svc args problem additional seed msgs w)) = sent w @
      [\<lparr>rq_model = arg_engine args,
        rq_messages = [\<lparr>role = User,
           content = synthesis_prompt problem (additional_clause additional) (conversation_string msgs)\<rparr>],
        rq_max_tokens = c - int (length (enc
           (synthesis_prompt problem (additional_clause additional) (conversation_string msgs)))),
        rq_temperature = arg_temp args, rq_top_p = arg_top_p args\<rparr>,
       \<lparr>rq_model = arg_engine args,
        rq_messages = [\<lparr>role = User, content = report_prompt (strip r)\<rparr>],
        rq_max_tokens = c - int (length (enc (strip r))),
        rq_temperature = arg_temp args, rq_top_p = arg_top_p args\<rparr>]"
  using assms
  by (simp add: wrap_up_def Let_def query_GPT_def create_def print_def write_file_def
        split: sum.splits)

text \<open>
  Claim C7. If the token count of the seed alone is at least the budget, the loop returns
  the one-message transcript without a request (the body runs zero times), the program
  goes on to the synthesis stage with that transcript, and for an engine with a context
  ceiling the next request sent is the synthesis request built from the single entry
  \<^verbatim>\<open>Agent 1: <seed>\<close>.
\<close>

theorem C7_zero_turns:
  assumes "arg_max_len args \<le> int (compute_total_tokens [seed] enc)"
  shows "debating_loop (Suc fuel) enc svc args p [seed] w = (Some (Inr [seed]), w)
       \<and> brainstorm (Suc fuel) enc svc args problem additional seed w =
           (case wrap_up enc svc args problem additional seed [seed]
                   (print (lit ''Starting brainstorming session...\<newline>-----------------------------'') w) of
              (r, w') \<Rightarrow> (Some r, w'))
       \<and> (context_len (arg_engine args) = Some c \<longrightarrow>
            (\<exists>rest. sent (snd (brainstorm (Suc fuel) enc svc args problem additional seed w)) = sent w @
               \<lparr>rq_model = arg_engine args,
                rq_messages = [\<lparr>role = User,
                   content = synthesis_prompt problem (additional_clause additional)
                               (strip (lit ''Agent 1: '' @ seed @ lit ''\<newline>\<newline>''))\<rparr>],
                rq_max_tokens = c - int (length (enc
                   (synthesis_prompt problem (additional_clause additional)
                               (strip (lit ''Agent 1: '' @ seed @ lit ''\<newline>\<newline>''))))),
                rq_temperature = arg_temp args, rq_top_p = arg_top_p args\<rparr> # rest))"
proof -
  have loop: "debating_loop (Suc fuel) enc svc args p [seed] w = (Some (Inr [seed]), w)" for p w
    using assms by (simp add: debating_loop.simps(2))
  have cs: "conversation_string [seed] = strip (lit ''Agent 1: '' @ seed @ lit ''\<newline>\<newline>'')"
    by (simp add: conversation_string_def decimal_1 lit_def)
  have br: "brainstorm (Suc fuel) enc svc args problem additional seed w =
           (case wrap_up enc svc args problem additional seed [seed]
                   (print (lit ''Starting brainstorming session...\<newline>-----------------------------'') w) of
              (r, w') \<Rightarrow> (Some r, w'))"
    by (simp add: brainstorm_def Let_def loop)
  have rq: "\<exists>rest. sent (snd (brainstorm (Suc fuel) enc svc args problem additional seed w)) = sent w @
               \<lparr>rq_model = arg_engine args,
                rq_messages = [\<lparr>role = User,
                   content = synthesis_prompt problem (additional_clause additional)
                               (strip (lit ''Agent 1: '' @ seed @ lit ''\<newline>\<newline>''))\<rparr>],
                rq_max_tokens = c - int (length (enc
                   (synthesis_prompt problem (additional_clause additional)
                               (strip (lit ''Agent 1: '' @ seed @ lit ''\<newline>\<newline>''))))),
                rq_temperature = arg_temp args, rq_top_p = arg_top_p args\<rparr> # rest"
    if "context_len (arg_engine args) = Some c"
    using that unfolding br
    by (auto simp: wrap_up_def Let_def query_GPT_def create_def print_def write_file_def cs
          split: sum.splits prod.splits)
  from loop br rq show ?thesis by blast
qed


theorem C8_request_sizes_witness:
  "map rq_max_tokens
     (sent (snd (wrap_up (\<lambda>s. s) (\<lambda>k. Inr [32, 111, 107, 10])
        \<lparr>arg_temp = (), arg_top_p = (), arg_engine = lit ''gpt-4'', arg_max_len = 0\<rparr>
        [112] [] [115] [[115]]
        \<lparr>stdin = [], stdout = [], sent = ([] :: unit request list), files = Map.empty\<rparr>)))
   = [8000 - int (length (synthesis_prompt [112] [] (conversation_string [[115]]))), 7998]"
proof -
  have sp: "strip [32, 111, 107, 10] = [111, 107]"
    by (simp add: strip_def isspace_def)
  have cl: "context_len (lit ''gpt-4'') = Some 8000"
    by (simp add: context_len_def lit_inject)
  show ?thesis
    using C8_request_sizes [where args = "\<lparr>arg_temp = (), arg_top_p = (), arg_engine = lit ''gpt-4'', arg_max_len = 0\<rparr>"
        and c = 8000 and svc = "\<lambda>k. Inr [32, 111, 107, 10]" and r = "[32, 111, 107, 10]"
        and w = "\<lparr>stdin = [], stdout = [], sent = ([] :: unit request list), files = Map.empty\<rparr>"
        and enc = "\<lambda>s. s" and problem = "[112]" and additional = "[]" and seed = "[115]"
        and msgs = "[[115]]"]
    by (simp add: sp cl additional_clause_def)
qed

theorem C7_zero_turns_witness:
  "debating_loop (Suc 0) (\<lambda>s. s) (\<lambda>k. Inr [32, 111, 107, 10])
      \<lparr>arg_temp = (), arg_top_p = (), arg_engine = lit ''gpt-3.5-turbo'', arg_max_len = 1\<rparr> [] [[115]]
      \<lparr>stdin = [], stdout = [], sent = ([] :: unit request list), files = Map.empty\<rparr>
    = (Some (Inr [[115]]),
       \<lparr>stdin = [], stdout = [], sent = ([] :: unit request list), files = Map.empty\<rparr>)
   \<and> (\<exists>rest. sent (snd (brainstorm (Suc 0) (\<lambda>s. s) (\<lambda>k. Inr [32, 111, 107, 10])
          \<lparr>arg_temp = (), arg_top_p = (), arg_engine = lit ''gpt-3.5-turbo'', arg_max_len = 1\<rparr>
          [112] [] [115]
          \<lparr>stdin = [], stdout = [], sent = ([] :: unit request list), files = Map.empty\<rparr>))
        = \<lparr>rq_model = lit ''gpt-3.5-turbo'',
           rq_messages = [\<lparr>role = User, content = synthesis_prompt [112] [] (lit ''Agent 1: s'')\<rparr>],
           rq_max_tokens = 4000 - int (length (synthesis_prompt [112] [] (lit ''Agent 1: s''))),
           rq_temperature = (), rq_top_p = ()\<rparr> # rest)"
proof -
  let ?a = "\<lparr>arg_temp = (), arg_top_p = (), arg_engine = lit ''gpt-3.5-turbo'', arg_max_len = 1\<rparr>"
  have sp: "strip (lit ''Agent 1: '' @ 115 # lit ''\<newline>\<newline>'') = lit ''Agent 1: s''"
    by (simp add: strip_def isspace_def lit_def)
  have cl: "context_len (arg_engine ?a) = Some 4000"
    by (simp add: context_len_def)
  have pre: "arg_max_len ?a \<le> int (compute_total_tokens [[115]] (\<lambda>s. s))"
    by (simp add: compute_total_tokens_def)
  note th = C7_zero_turns [where args = ?a
        and c = 4000 and svc = "\<lambda>k. Inr [32, 111, 107, 10]" and fuel = 0 and p = "[]"
        and w = "\<lparr>stdin = [], stdout = [], sent = ([] :: unit request list), files = Map.empty\<rparr>"
        and enc = "\<lambda>s. s" and problem = "[112]" and additional = "[]" and seed = "[115]", OF pre]
  from th [THEN conjunct1] th [THEN conjunct2, THEN conjunct2, THEN mp, OF cl]
  show ?thesis
    by (simp add: sp additional_clause_def)
qed

section \<open>Runs of the whole program\<close>

text \<open>Facts for running the program on concrete inputs.\<close>

lemma strip_A: "strip (lit ''A'') = lit ''A''" "strip (lit ''B'') = lit ''B''"
  "strip (lit ''S'') = lit ''S''" "strip (lit ''ok'') = lit ''ok''"
  by (simp_all add: strip_def isspace_def lit_def)

lemmas run_defs = main_def input_def print_def seeding_def brainstorm_def debating_loop.simps(2)
  wrap_up_def query_GPT_def chat_GPT_def create_def write_file_def Let_def
  compute_total_tokens_def context_len_def lit_inject lit_eq_Nil length_lit

text \<open>
  Claim C9 asks that an engine without a context ceiling is rejected at startup, before
  any input is read and before any remote call. The run below, with the engine
  \<^verbatim>\<open>gpt-4-32k\<close>, reads all three answers, runs one debating iteration (two remote
  calls) and only then ends with \<^verbatim>\<open>NameError\<close>, when the synthesis request is sized.
\<close>

theorem C9_unrecognized_engine_fails_late:
  "fst (main (Suc 0) (\<lambda>s. s) (\<lambda>k. Inr (lit ''ok''))
          \<lparr>arg_temp = (), arg_top_p = (), arg_engine = lit ''gpt-4-32k'', arg_max_len = 2\<rparr>
          \<lparr>stdin = [lit ''p'', [], lit ''s''], stdout = [], sent = ([] :: unit request list), files = Map.empty\<rparr>)
     = Some (Inl NameError)
   \<and> stdin (snd (main (Suc 0) (\<lambda>s. s) (\<lambda>k. Inr (lit ''ok''))
          \<lparr>arg_temp = (), arg_top_p = (), arg_engine = lit ''gpt-4-32k'', arg_max_len = 2\<rparr>
          \<lparr>stdin = [lit ''p'', [], lit ''s''], stdout = [], sent = ([] :: unit request list), files = Map.empty\<rparr>))
     = []
   \<and> length (sent (snd (main (Suc 0) (\<lambda>s. s) (\<lambda>k. Inr (lit ''ok''))
          \<lparr>arg_temp = (), arg_top_p = (), arg_engine = lit ''gpt-4-32k'', arg_max_len = 2\<rparr>
          \<lparr>stdin = [lit ''p'', [], lit ''s''], stdout = [], sent = ([] :: unit request list), files = Map.empty\<rparr>)))
     = 2"
  by (simp add: run_defs strip_A)

text \<open>
  Claim C4 asks that the reply of the starter=user call carries the label
  \<^verbatim>\<open>Agent 1:\<close> in the conversation file and in the synthesis document. In the run below
  that reply is \<^verbatim>\<open>A\<close> and the reply of the starter=assistant call is \<^verbatim>\<open>B\<close>: the
  terminal shows \<^verbatim>\<open>Agent 1: A\<close>, while the file and the synthesis instruction hold
  \<^verbatim>\<open>Agent 2: A\<close> and \<^verbatim>\<open>Agent 1: B\<close>, since the labels follow the position in the
  transcript and the seed takes position 0.
\<close>

theorem C4_labels_swapped:
  "files (snd (main (Suc 0) (\<lambda>s. s)
          (\<lambda>k. Inr (if k = 0 then lit ''A'' else if k = 1 then lit ''B'' else lit ''S''))
          \<lparr>arg_temp = (), arg_top_p = (), arg_engine = lit ''gpt-4'', arg_max_len = 2\<rparr>
          \<lparr>stdin = [lit ''p'', [], lit ''s''], stdout = [], sent = ([] :: unit request list), files = Map.empty\<rparr>))
       (lit ''conversation.txt'')
     = Some (lit ''Problem: p\<newline>\<newline>Additional Information: \<newline>\<newline>Proposed Solution: s\<newline>\<newline>Agent 1: s\<newline>\<newline>Agent 2: A\<newline>\<newline>Agent 1: B\<newline>\<newline>'')
   \<and> stdout (snd (main (Suc 0) (\<lambda>s. s)
          (\<lambda>k. Inr (if k = 0 then lit ''A'' else if k = 1 then lit ''B'' else lit ''S''))
          \<lparr>arg_temp = (), arg_top_p = (), arg_engine = lit ''gpt-4'', arg_max_len = 2\<rparr>
          \<lparr>stdin = [lit ''p'', [], lit ''s''], stdout = [], sent = ([] :: unit request list), files = Map.empty\<rparr>)) ! 5
     = lit ''Agent 1: A\<newline>-----------------------------\<newline>\<newline>''
   \<and> map (\<lambda>rq. content (hd (rq_messages rq))) (drop 2 (sent (snd (main (Suc 0) (\<lambda>s. s)
          (\<lambda>k. Inr (if k = 0 then lit ''A'' else if k = 1 then lit ''B'' else lit ''S''))
          \<lparr>arg_temp = (), arg_top_p = (), arg_engine = lit ''gpt-4'', arg_max_len = 2\<rparr>
          \<lparr>stdin = [lit ''p'', [], lit ''s''], stdout = [], sent = ([] :: unit request list), files = Map.empty\<rparr>))))
     = [synthesis_prompt (lit ''p'') [] (lit ''Agent 1: s\<newline>\<newline>Agent 2: A\<newline>\<newline>Agent 1: B''),
        report_prompt (lit ''S'')]"
proof -
  have cs: "conversation_string [lit ''s'', lit ''A'', lit ''B'']
              = lit ''Agent 1: s\<newline>\<newline>Agent 2: A\<newline>\<newline>Agent 1: B''"
    by (simp add: conversation_string_def strip_def isspace_def lit_def decimal.simps)
  have cf: "conversation_file (lit ''p'') [] (lit ''s'') [lit ''s'', lit ''A'', lit ''B'']
      = lit ''Problem: p\<newline>\<newline>Additional Information: \<newline>\<newline>Proposed Solution: s\<newline>\<newline>Agent 1: s\<newline>\<newline>Agent 2: A\<newline>\<newline>Agent 1: B\<newline>\<newline>''"
    by (simp add: conversation_file_def file_header_def lit_def decimal.simps)
  have pr: "lit ''Agent 1: '' @ lit ''A'' @ lit ''\<newline>-----------------------------\<newline>'' @ lit ''\<newline>''
     = lit ''Agent 1: A\<newline>-----------------------------\<newline>\<newline>''"
    by (simp add: lit_def)
  show ?thesis
    by (simp add: run_defs strip_A cs cf pr additional_clause_def)
qed

text \<open>
  Claim C5 asks that the conversation file is written even if the synthesis call fails.
  In the run below the two chat calls succeed and the synthesis call fails: the run ends
  with the error after three requests, and no conversation file exists.
\<close>

theorem C5_synthesis_failure_loses_transcript:
  "fst (main (Suc 0) (\<lambda>s. s)
          (\<lambda>k. if k < 2 then Inr (lit ''ok'') else Inl RemoteError)
          \<lparr>arg_temp = (), arg_top_p = (), arg_engine = lit ''gpt-4'', arg_max_len = 2\<rparr>
          \<lparr>stdin = [lit ''p'', [], lit ''s''], stdout = [], sent = ([] :: unit request list), files = Map.empty\<rparr>)
     = Some (Inl RemoteError)
   \<and> length (sent (snd (main (Suc 0) (\<lambda>s. s)
          (\<lambda>k. if k < 2 then Inr (lit ''ok'') else Inl RemoteError)
          \<lparr>arg_temp = (), arg_top_p = (), arg_engine = lit ''gpt-4'', arg_max_len = 2\<rparr>
          \<lparr>stdin = [lit ''p'', [], lit ''s''], stdout = [], sent = ([] :: unit request list), files = Map.empty\<rparr>)))
     = 3
   \<and> files (snd (main (Suc 0) (\<lambda>s. s)
          (\<lambda>k. if k < 2 then Inr (lit ''ok'') else Inl RemoteError)
          \<lparr>arg_temp = (), arg_top_p = (), arg_engine = lit ''gpt-4'', arg_max_len = 2\<rparr>
          \<lparr>stdin = [lit ''p'', [], lit ''s''], stdout = [], sent = ([] :: unit request list), files = Map.empty\<rparr>))
       (lit ''conversation.txt'')
     = None"
  by (simp add: run_defs strip_A)

text \<open>
  Claim C5, as the program has it. For an engine with a context ceiling: if the
  synthesis call fails, the run ends with that error and no file is written; if the
  synthesis call returns and the report call fails, the run ends with that error after
  the conversation file (header and every turn of the transcript) and the synthesis file
  have been written.
\<close>

theorem C5_export_after_synthesis:
  assumes "context_len (arg_engine args) = Some c"
  shows "(svc (length (sent w)) = Inl e \<longrightarrow>
            fst (wrap_up enc svc args problem additional seed msgs w) = Inl e
          \<and> files (snd (wrap_up enc svc args problem additional seed msgs w)) = files w)
       \<and> (svc (length (sent w)) = Inr r \<and> svc (Suc (length (sent w))) = Inl e \<longrightarrow>
            fst (wrap_up enc svc args problem additional seed msgs w) = Inl e
          \<and> files (snd (wrap_up enc svc args problem additional seed msgs w)) =
              (files w)
                (lit ''conversation.txt'' \<mapsto> conversation_file problem additional seed msgs,
                 lit ''synthesis.txt'' \<mapsto> synthesis_file problem additional seed (strip r)))"
  using assms
  by (simp add: wrap_up_def Let_def query_GPT_def create_def print_def write_file_def)

theorem C5_export_after_synthesis_witness:
  "fst (wrap_up (\<lambda>s. s) (\<lambda>k. Inl RemoteError)
          \<lparr>arg_temp = (), arg_top_p = (), arg_engine = lit ''gpt-4'', arg_max_len = 2\<rparr>
          (lit ''p'') [] (lit ''s'') [lit ''s'']
          \<lparr>stdin = [], stdout = [], sent = ([] :: unit request list), files = Map.empty\<rparr>)
     = Inl RemoteError
   \<and> files (snd (wrap_up (\<lambda>s. s) (\<lambda>k. if k = 0 then Inr (lit ''S'') else Inl RemoteError)
          \<lparr>arg_temp = (), arg_top_p = (), arg_engine = lit ''gpt-4'', arg_max_len = 2\<rparr>
          (lit ''p'') [] (lit ''s'') [lit ''s'']
          \<lparr>stdin = [], stdout = [], sent = ([] :: unit request list), files = Map.empty\<rparr>))
     = [lit ''conversation.txt'' \<mapsto> conversation_file (lit ''p'') [] (lit ''s'') [lit ''s''],
        lit ''synthesis.txt'' \<mapsto> synthesis_file (lit ''p'') [] (lit ''s'') (lit ''S'')]"
proof -
  let ?a = "\<lparr>arg_temp = (), arg_top_p = (), arg_engine = lit ''gpt-4'', arg_max_len = 2\<rparr>"
  let ?w = "\<lparr>stdin = [], stdout = [], sent = ([] :: unit request list), files = Map.empty\<rparr>"
  have cl: "context_len (arg_engine ?a) = Some 8000"
    by (simp add: context_len_def lit_inject)
  note t1 = C5_export_after_synthesis [where args = ?a and c = 8000 and w = ?w
      and svc = "\<lambda>k. Inl RemoteError" and e = RemoteError, OF cl, THEN conjunct1, THEN mp]
  note t2 = C5_export_after_synthesis [where args = ?a and c = 8000 and w = ?w
      and svc = "\<lambda>k. if k = 0 then Inr (lit ''S'') else Inl RemoteError" and e = RemoteError
      and r = "lit ''S''", OF cl, THEN conjunct2, THEN mp]
  have "fst (wrap_up (\<lambda>s. s) (\<lambda>k. Inl RemoteError) ?a (lit ''p'') [] (lit ''s'') [lit ''s''] ?w)
          = Inl RemoteError"
    using t1 [of "\<lambda>s. s" "lit ''p''" "[]" "lit ''s''" "[lit ''s'']"] by simp
  moreover have "files (snd (wrap_up (\<lambda>s. s) (\<lambda>k. if k = 0 then Inr (lit ''S'') else Inl RemoteError)
          ?a (lit ''p'') [] (lit ''s'') [lit ''s''] ?w))
     = [lit ''conversation.txt'' \<mapsto> conversation_file (lit ''p'') [] (lit ''s'') [lit ''s''],
        lit ''synthesis.txt'' \<mapsto> synthesis_file (lit ''p'') [] (lit ''s'') (lit ''S'')]"
    using t2 [of "\<lambda>s. s" "lit ''p''" "[]" "lit ''s''" "[lit ''s'']"] by (simp add: strip_A)
  ultimately show ?thesis by blast
qed

section \<open>Termination of the debating loop\<close>

lemma length_join_snoc: "length (join sep xs) + length a \<le> length (join sep (xs @ [a]))"
  by (induction sep xs rule: join.induct) simp_all

lemma length_join_two:
  "length (join sep xs) + length b \<le> length (join sep (xs @ [a, b]))"
proof -
  have "length (join sep xs) \<le> length (join sep (xs @ [a]))"
    using length_join_snoc [of sep xs a] by simp
  moreover have "length (join sep (xs @ [a])) + length b \<le> length (join sep ((xs @ [a]) @ [b]))"
    by (rule length_join_snoc)
  ultimately show ?thesis by simp
qed

lemma debating_loop_returns:
  assumes width: "\<forall>s. length s \<le> L * length (enc s)"
  shows "L * nat (arg_max_len args) - length (join (lit ''\<newline>'') msgs) < n
           \<Longrightarrow> fst (debating_loop n enc svc args p msgs w) \<noteq> None"
proof (induction n arbitrary: msgs w)
  case 0
  then show ?case by simp
next
  case (Suc n)
  let ?B = "L * nat (arg_max_len args)"
  let ?len = "\<lambda>ms. length (join (lit ''\<newline>'') ms)"
  show ?case
  proof (cases "int (compute_total_tokens msgs enc) < arg_max_len args")
    case False
    then show ?thesis by (simp add: debating_loop.simps(2))
  next
    case True
    then have "compute_total_tokens msgs enc < nat (arg_max_len args)" by linarith
    then have "L * compute_total_tokens msgs enc < ?B \<or> L = 0" by auto
    moreover have "L \<noteq> 0" using width [rule_format, of "[0]"] by (cases L) simp_all
    moreover have "?len msgs \<le> L * compute_total_tokens msgs enc"
      using width by (simp add: compute_total_tokens_def)
    ultimately have below: "?len msgs < ?B" by linarith
    have rec: "fst (debating_loop n enc svc args p (msgs @ [a, b]) v) \<noteq> None"
      if "50 \<le> length b" for a b v
    proof (rule Suc.IH)
      from length_join_two [of "lit ''\<newline>''" msgs b a] that
      have "?len msgs + 50 \<le> ?len (msgs @ [a, b])" by simp
      with below Suc.prems show "?B - ?len (msgs @ [a, b]) < n" by linarith
    qed
    show ?thesis
      using True rec
      by (auto simp: debating_loop.simps(2) chat_GPT_def create_def print_def Let_def
            split: sum.splits)
  qed
qed

text \<open>
  Claim C6. The tokens of the tokenizer have bounded length: there is an \<open>L\<close> such that
  every text has at most \<open>L\<close> characters per token (a tokenizer with a finite vocabulary
  has its longest token for \<open>L\<close>). Then for every budget, every sequence of replies, empty
  replies and failures included, and every transcript, the loop ends within
  \<open>L * max_len + 1\<close> evaluations of its condition: an Agent-2 reply of fewer than 50
  characters stops it at once, and every other iteration makes the joined transcript at
  least 50 characters longer.
\<close>

theorem C6_terminates_when_count_grows:
  assumes "\<forall>s. length s \<le> L * length (enc s)"
  shows "\<exists>r. fst (debating_loop (Suc (L * nat (arg_max_len args))) enc svc args p msgs w) = Some r"
  using debating_loop_returns [OF assms, of args msgs "Suc (L * nat (arg_max_len args))" svc p w]
  by auto

theorem C6_terminates_when_count_grows_witness:
  "\<exists>r. fst (debating_loop (Suc (1 * nat 200)) (\<lambda>s. s) (\<lambda>k. Inr (replicate 50 97))
         \<lparr>arg_temp = (), arg_top_p = (), arg_engine = lit ''gpt-4'', arg_max_len = 200\<rparr>
         [] [lit ''s'']
         \<lparr>stdin = [], stdout = [], sent = ([] :: unit request list), files = Map.empty\<rparr>) = Some r"
proof -
  have "\<forall>s :: str. length s \<le> 1 * length ((\<lambda>s. s) s)" by simp
  from C6_terminates_when_count_grows [OF this,
      of "\<lparr>arg_temp = (), arg_top_p = (), arg_engine = lit ''gpt-4'', arg_max_len = 200\<rparr>"]
  show ?thesis by simp
qed

section \<open>The conversation file, written and read back\<close>

lemma split_lines_not_Nil: "split_lines x \<noteq> []"
  by (induction x) (auto split: list.splits)

lemma split_lines_append:
  "split_lines (x @ 10 # rest) = split_lines x @ split_lines rest"
proof (induction x)
  case Nil
  then show ?case by simp
next
  case (Cons c cs)
  obtain l ls where "split_lines cs = l # ls"
    using split_lines_not_Nil [of cs] by (cases "split_lines cs") auto
  with Cons show ?case by simp
qed

lemma split_lines_prefix:
  "10 \<notin> set a \<Longrightarrow> split_lines (a @ x) = (a @ hd (split_lines x)) # tl (split_lines x)"
proof (induction a)
  case Nil
  then show ?case using split_lines_not_Nil [of x] by simp
next
  case (Cons c cs)
  then show ?case by simp
qed

lemma join_split_lines: "join [10] (split_lines x) = x"
proof (induction x)
  case Nil
  then show ?case by simp
next
  case (Cons c cs)
  obtain l ls where ls: "split_lines cs = l # ls"
    using split_lines_not_Nil [of cs] by (cases "split_lines cs") auto
  with Cons show ?case by (cases ls) auto
qed

lemma decimal_label: "decimal (Suc (i mod 2)) = (if even i then lit ''1'' else lit ''2'')"
proof -
  have "i mod 2 = 0 \<or> i mod 2 = 1" by presburger
  then show ?thesis
    by (auto simp: decimal.simps lit_def even_iff_mod_2_eq_zero)
qed

lemma label_cases: "label i = lit ''Agent 1: '' \<or> label i = lit ''Agent 2: ''"
  by (simp add: label_def decimal_label lit_def)

lemma is_label_label: "is_label (label i @ l)"
  using label_cases [of i] by (auto simp: is_label_def lit_def)

lemma drop_label: "drop 9 (label i @ l) = l"
  using label_cases [of i] by (auto simp: lit_def)

lemma newline_label: "10 \<notin> set (label i)"
  using label_cases [of i] by (auto simp: lit_def)

lemma agent_entries_Cons:
  "agent_entries i (m # ms) = (label i @ m) @ 10 # 10 # agent_entries (Suc i) ms"
  by (simp add: label_def lit_def)

lemma entries_skip:
  "list_all (\<lambda>l. \<not> is_label l) xs \<Longrightarrow> entries_of_lines (xs @ ys) = entries_of_lines ys"
  by (induction xs) simp_all

lemma takeWhile_skip:
  "list_all (\<lambda>l. \<not> is_label l) xs \<Longrightarrow> ys = [] \<or> is_label (hd ys)
     \<Longrightarrow> takeWhile (\<lambda>x. \<not> is_label x) (xs @ ys) = xs"
proof (induction xs)
  case Nil
  then show ?case by (cases ys) auto
next
  case (Cons x xs)
  then show ?case by simp
qed

lemma split_lines_entries:
  "split_lines (agent_entries i msgs) = entry_lines i msgs @ [[]]"
proof (induction msgs arbitrary: i)
  case Nil
  then show ?case by simp
next
  case (Cons m ms)
  have "split_lines (agent_entries i (m # ms))
      = split_lines (label i @ m) @ [] # split_lines (agent_entries (Suc i) ms)"
    by (simp only: agent_entries_Cons split_lines_append) simp
  moreover have "split_lines (label i @ m) = (label i @ hd (split_lines m)) # tl (split_lines m)"
    by (rule split_lines_prefix [OF newline_label])
  ultimately show ?case using Cons.IH [of "Suc i"] by simp
qed

lemma entry_lines_head: "entry_lines i msgs = [] \<or> is_label (hd (entry_lines i msgs))"
  by (cases msgs) (simp_all add: is_label_label)

lemma not_label_Nil: "\<not> is_label []"
  by (simp add: is_label_def lit_def)

lemma parse_entry_lines:
  "list_all no_inner_label msgs \<Longrightarrow>
     map (\<lambda>g. join [10] (butlast g)) (entries_of_lines (entry_lines i msgs)) = msgs"
proof (induction msgs arbitrary: i)
  case Nil
  then show ?case by simp
next
  case (Cons m ms)
  let ?rest = "entry_lines (Suc i) ms"
  let ?cont = "tl (split_lines m)"
  from Cons.prems have plain: "list_all (\<lambda>l. \<not> is_label l) ?cont"
    by (simp add: no_inner_label_def)
  then have plain': "list_all (\<lambda>l. \<not> is_label l) (?cont @ [[]])"
    by (simp add: not_label_Nil)
  have tw: "takeWhile (\<lambda>x. \<not> is_label x) ((?cont @ [[]]) @ ?rest) = ?cont @ [[]]"
    by (rule takeWhile_skip [OF plain' entry_lines_head])
  have sk: "entries_of_lines ((?cont @ [[]]) @ ?rest) = entries_of_lines ?rest"
    by (rule entries_skip [OF plain'])
  have hd_tl: "hd (split_lines m) # ?cont = split_lines m"
    using split_lines_not_Nil [of m] by simp
  have "entries_of_lines (entry_lines i (m # ms))
      = (hd (split_lines m) # ?cont @ [[]]) # entries_of_lines ?rest"
    using tw sk by (simp add: is_label_label drop_label del: drop_append)
  moreover have "join [10] (butlast (hd (split_lines m) # ?cont @ [[]])) = m"
    using join_split_lines [of m] hd_tl by (simp add: butlast_append)
  ultimately show ?case using Cons by simp
qed

text \<open>
  Claim C10, for texts without inner labels. If no line after the first of the problem,
  of the additional information, of the seed and of any message of the transcript
  starts with \<^verbatim>\<open>Agent 1: \<close> or \<^verbatim>\<open>Agent 2: \<close>, then reading the conversation file back
  gives the transcript: the labelled entries, in order, carry exactly the messages, line
  breaks and blank lines inside a message included.
\<close>

theorem C10_round_trip_no_inner_label:
  assumes "no_inner_label problem" and "no_inner_label additional" and "no_inner_label seed"
    and "list_all no_inner_label msgs"
  shows "parse_conversation (conversation_file problem additional seed msgs) = msgs"
proof -
  let ?h1 = "lit ''Problem: ''" and ?h2 = "lit ''Additional Information: ''"
    and ?h3 = "lit ''Proposed Solution: ''"
  let ?head = "(?h1 @ hd (split_lines problem)) # tl (split_lines problem) @ []
      # (?h2 @ hd (split_lines additional)) # tl (split_lines additional) @ []
      # (?h3 @ hd (split_lines seed)) # tl (split_lines seed) @ [[]]"
  have nl: "10 \<notin> set ?h1" "10 \<notin> set ?h2" "10 \<notin> set ?h3"
    by (simp_all add: lit_def)
  have "conversation_file problem additional seed msgs
      = (?h1 @ problem) @ 10 # [] @ 10 # (?h2 @ additional) @ 10 # [] @ 10
          # (?h3 @ seed) @ 10 # [] @ 10 # agent_entries 0 msgs"
    by (simp add: conversation_file_def file_header_def lit_def)
  then have "split_lines (conversation_file problem additional seed msgs)
      = split_lines (?h1 @ problem) @ [] # split_lines (?h2 @ additional) @ []
          # split_lines (?h3 @ seed) @ [] # split_lines (agent_entries 0 msgs)"
    by (simp only: split_lines_append) simp
  then have lines: "split_lines (conversation_file problem additional seed msgs)
      = (?head @ entry_lines 0 msgs) @ [[]]"
    by (simp add: split_lines_prefix [OF nl(1)] split_lines_prefix [OF nl(2)]
          split_lines_prefix [OF nl(3)] split_lines_entries)
  have heads: "\<not> is_label (?h1 @ x)" "\<not> is_label (?h2 @ x)" "\<not> is_label (?h3 @ x)" for x
    by (simp_all add: is_label_def lit_def)
  have "list_all (\<lambda>l. \<not> is_label l) ?head"
    using assms(1-3) by (simp add: no_inner_label_def heads not_label_Nil)
  then have "entries_of_lines (?head @ entry_lines 0 msgs) = entries_of_lines (entry_lines 0 msgs)"
    by (rule entries_skip)
  moreover have "lit ''\<newline>'' = [10]" by (simp add: lit_def)
  ultimately show ?thesis
    using parse_entry_lines [OF assms(4), of 0]
    by (simp only: parse_conversation_def lines butlast_snoc)
qed

theorem C10_round_trip_no_inner_label_witness:
  "parse_conversation
     (conversation_file (lit ''p'') [] (lit ''s'')
        [lit ''s'', lit ''first\<newline>\<newline>reply'', lit ''second\<newline>reply''])
   = [lit ''s'', lit ''first\<newline>\<newline>reply'', lit ''second\<newline>reply'']"
  using C10_round_trip_no_inner_label [of "lit ''p''" "[]" "lit ''s''"
      "[lit ''s'', lit ''first\<newline>\<newline>reply'', lit ''second\<newline>reply'']"]
  by (simp add: no_inner_label_def is_label_def lit_def)

lemma both_transcripts_arise:
  "fst (debating_loop 2 (\<lambda>s. s)
          (\<lambda>k. Inr (if k = 0 then lit ''u\<newline>\<newline>Agent 1: vvvvvvvvvvvvvvvvvvvvvvvvvvvvvvvvvvvvvvvvvvvvvvvvvv\<newline>\<newline>Agent 2: w'' else lit ''y''))
          \<lparr>arg_temp = (), arg_top_p = (), arg_engine = lit ''gpt-4'', arg_max_len = 2048\<rparr> p
          [lit ''s'']
          \<lparr>stdin = [], stdout = [], sent = ([] :: unit request list), files = Map.empty\<rparr>)
     = Some (Inr [lit ''s'', lit ''u\<newline>\<newline>Agent 1: vvvvvvvvvvvvvvvvvvvvvvvvvvvvvvvvvvvvvvvvvvvvvvvvvv\<newline>\<newline>Agent 2: w'', lit ''y''])
   \<and> fst (debating_loop 2 (\<lambda>s. s)
          (\<lambda>k. Inr (if k = 0 then lit ''u'' else if k = 1 then lit ''vvvvvvvvvvvvvvvvvvvvvvvvvvvvvvvvvvvvvvvvvvvvvvvvvv''
                      else if k = 2 then lit ''w'' else lit ''y''))
          \<lparr>arg_temp = (), arg_top_p = (), arg_engine = lit ''gpt-4'', arg_max_len = 2048\<rparr> p
          [lit ''s'']
          \<lparr>stdin = [], stdout = [], sent = ([] :: unit request list), files = Map.empty\<rparr>)
     = Some (Inr [lit ''s'', lit ''u'', lit ''vvvvvvvvvvvvvvvvvvvvvvvvvvvvvvvvvvvvvvvvvvvvvvvvvv'', lit ''w'', lit ''y''])"
proof -
  have sp: "strip (lit ''u\<newline>\<newline>Agent 1: vvvvvvvvvvvvvvvvvvvvvvvvvvvvvvvvvvvvvvvvvvvvvvvvvv\<newline>\<newline>Agent 2: w'')
              = lit ''u\<newline>\<newline>Agent 1: vvvvvvvvvvvvvvvvvvvvvvvvvvvvvvvvvvvvvvvvvvvvvvvvvv\<newline>\<newline>Agent 2: w''"
    "strip (lit ''y'') = lit ''y''" "strip (lit ''u'') = lit ''u''" "strip (lit ''w'') = lit ''w''"
    "strip (lit ''vvvvvvvvvvvvvvvvvvvvvvvvvvvvvvvvvvvvvvvvvvvvvvvvvv'') = lit ''vvvvvvvvvvvvvvvvvvvvvvvvvvvvvvvvvvvvvvvvvvvvvvvvvv''"
    by (simp_all add: strip_def isspace_def lit_def)
  show ?thesis
    by (simp add: numeral_2_eq_2 debating_loop.simps(2) compute_total_tokens_def chat_GPT_def
          create_def print_def Let_def sp length_lit)
qed

text \<open>
  Claim C10 asks that the transcript can be read back from the conversation file. Two
  runs on the same answers, differing only in what the service replies, end with
  different transcripts (of three and of five messages) and the same conversation file:
  in the first run one reply holds the text \<^verbatim>\<open>Agent 1: \<close> and \<^verbatim>\<open>Agent 2: \<close> after blank
  lines. No reader of the file can tell the two transcripts apart.
\<close>

theorem C10_two_transcripts_one_file:
  "fst (debating_loop 2 (\<lambda>s. s)
          (\<lambda>k. Inr (if k = 0 then lit ''u\<newline>\<newline>Agent 1: vvvvvvvvvvvvvvvvvvvvvvvvvvvvvvvvvvvvvvvvvvvvvvvvvv\<newline>\<newline>Agent 2: w'' else lit ''y''))
          \<lparr>arg_temp = (), arg_top_p = (), arg_engine = lit ''gpt-4'', arg_max_len = 2048\<rparr> []
          [lit ''s'']
          \<lparr>stdin = [], stdout = [], sent = ([] :: unit request list), files = Map.empty\<rparr>)
     = Some (Inr [lit ''s'', lit ''u\<newline>\<newline>Agent 1: vvvvvvvvvvvvvvvvvvvvvvvvvvvvvvvvvvvvvvvvvvvvvvvvvv\<newline>\<newline>Agent 2: w'', lit ''y''])
   \<and> fst (debating_loop 2 (\<lambda>s. s)
          (\<lambda>k. Inr (if k = 0 then lit ''u'' else if k = 1 then lit ''vvvvvvvvvvvvvvvvvvvvvvvvvvvvvvvvvvvvvvvvvvvvvvvvvv''
                      else if k = 2 then lit ''w'' else lit ''y''))
          \<lparr>arg_temp = (), arg_top_p = (), arg_engine = lit ''gpt-4'', arg_max_len = 2048\<rparr> []
          [lit ''s'']
          \<lparr>stdin = [], stdout = [], sent = ([] :: unit request list), files = Map.empty\<rparr>)
     = Some (Inr [lit ''s'', lit ''u'', lit ''vvvvvvvvvvvvvvvvvvvvvvvvvvvvvvvvvvvvvvvvvvvvvvvvvv'', lit ''w'', lit ''y''])
   \<and> conversation_file (lit ''p'') [] (lit ''s'')
       [lit ''s'', lit ''u\<newline>\<newline>Agent 1: vvvvvvvvvvvvvvvvvvvvvvvvvvvvvvvvvvvvvvvvvvvvvvvvvv\<newline>\<newline>Agent 2: w'', lit ''y'']
     = conversation_file (lit ''p'') [] (lit ''s'')
       [lit ''s'', lit ''u'', lit ''vvvvvvvvvvvvvvvvvvvvvvvvvvvvvvvvvvvvvvvvvvvvvvvvvv'', lit ''w'', lit ''y'']
   \<and> [lit ''s'', lit ''u\<newline>\<newline>Agent 1: vvvvvvvvvvvvvvvvvvvvvvvvvvvvvvvvvvvvvvvvvvvvvvvvvv\<newline>\<newline>Agent 2: w'', lit ''y'']
     \<noteq> [lit ''s'', lit ''u'', lit ''vvvvvvvvvvvvvvvvvvvvvvvvvvvvvvvvvvvvvvvvvvvvvvvvvv'', lit ''w'', lit ''y'']"
proof -
  have "conversation_file (lit ''p'') [] (lit ''s'')
       [lit ''s'', lit ''u\<newline>\<newline>Agent 1: vvvvvvvvvvvvvvvvvvvvvvvvvvvvvvvvvvvvvvvvvvvvvvvvvv\<newline>\<newline>Agent 2: w'', lit ''y'']
     = conversation_file (lit ''p'') [] (lit ''s'')
       [lit ''s'', lit ''u'', lit ''vvvvvvvvvvvvvvvvvvvvvvvvvvvvvvvvvvvvvvvvvvvvvvvvvv'', lit ''w'', lit ''y'']"
    by (simp add: conversation_file_def decimal.simps lit_def)
  moreover have "[lit ''s'', lit ''u\<newline>\<newline>Agent 1: vvvvvvvvvvvvvvvvvvvvvvvvvvvvvvvvvvvvvvvvvvvvvvvvvv\<newline>\<newline>Agent 2: w'', lit ''y'']
     \<noteq> [lit ''s'', lit ''u'', lit ''vvvvvvvvvvvvvvvvvvvvvvvvvvvvvvvvvvvvvvvvvvvvvvvvvv'', lit ''w'', lit ''y'']"
    by simp
  ultimately show ?thesis
    using both_transcripts_arise [of "[]"] by blast
qed

end
